theory Spec2Isabelle
  imports
    Main
    "HOL-Library.Char_ord"
    "HOL-Library.List_Lexorder"
    "HOL-Library.Multiset"
    "HOL-Library.Word"
begin

unbundle bit_operations_syntax

section \<open>Python values and strings\<close>

text \<open>
  The program is \<^verbatim>\<open>app.py\<close>: a class \<^verbatim>\<open>Task\<close>, a class \<^verbatim>\<open>TaskManager\<close> that owns the
  list of tasks, and a menu loop. A Python \<^verbatim>\<open>str\<close> is a \<^typ>\<open>string\<close> here, one
  \<^typ>\<open>char\<close> for one code point below 256, so that \<^verbatim>\<open>len\<close>, slicing, padding and the
  ordering of \<^verbatim>\<open>str\<close> (lexicographic on code points) are \<^const>\<open>length\<close>, \<^const>\<open>take\<close>,
  \<^const>\<open>replicate\<close> and the lexicographic order of lists of characters.
\<close>

text \<open>
  The values \<^verbatim>\<open>json.load\<close> returns: \<^verbatim>\<open>None\<close>, \<^verbatim>\<open>bool\<close>, \<^verbatim>\<open>int\<close>, \<^verbatim>\<open>float\<close> (its 64 bits),
  \<^verbatim>\<open>str\<close>, \<^verbatim>\<open>list\<close> and \<^verbatim>\<open>dict\<close> with \<^verbatim>\<open>str\<close> keys (an association list; the keys of
  a decoded \<^verbatim>\<open>dict\<close> are distinct).
\<close>

datatype pyval =
    PNone
  | PBool bool
  | PInt int
  | PFloat "64 word"
  | PStr string
  | PList "pyval list"
  | PDict "(string \<times> pyval) list"

text \<open>Truth value testing, as \<^verbatim>\<open>if x\<close> and \<^verbatim>\<open>not x\<close> do it. A float is false when it is
  \<^verbatim>\<open>0.0\<close> or \<^verbatim>\<open>-0.0\<close>: all bits but the sign are zero.\<close>

fun truthy :: "pyval \<Rightarrow> bool" where
  "truthy PNone = False"
| "truthy (PBool b) = b"
| "truthy (PInt i) = (i \<noteq> 0)"
| "truthy (PFloat w) = (w AND 0x7FFFFFFFFFFFFFFF \<noteq> 0)"
| "truthy (PStr s) = (s \<noteq> [])"
| "truthy (PList xs) = (xs \<noteq> [])"
| "truthy (PDict kvs) = (kvs \<noteq> [])"

text \<open>The exceptions the program meets.\<close>

datatype exn = JSONDecodeError | TypeError | AttributeError | OSError

text \<open>What \<^verbatim>\<open>print\<close> writes: one element for each call. \<open>Print_exn a e b\<close> is
  \<^verbatim>\<open>print(f"a{e}b")\<close> for an exception \<^verbatim>\<open>e\<close>, whose text is the runtime's.\<close>

datatype printed = Print string | Print_exn string exn string

text \<open>\<^verbatim>\<open>str(n)\<close> for a number that is not negative.\<close>

definition digit :: "nat \<Rightarrow> char" where
  "digit d = char_of (48 + d)"

fun str_nat :: "nat \<Rightarrow> string" where
  "str_nat n = (if n < 10 then [digit n] else str_nat (n div 10) @ [digit (n mod 10)])"

definition str_bool :: "bool \<Rightarrow> string" where
  "str_bool b = (if b then ''True'' else ''False'')"

text \<open>\<^verbatim>\<open>str.lower\<close> and \<^verbatim>\<open>str.upper\<close> on code points below 256: the letters A to Z and
  the accented capitals 192 to 214 and 216 to 222 have their small letter 32 further.
  The capitals of 181, 223 and 255 lie outside this range; \<^verbatim>\<open>upper\<close> is only called on a
  criterion whose \<^verbatim>\<open>lower\<close> is one of three ASCII words.\<close>

definition lower_char :: "char \<Rightarrow> char" where
  "lower_char c =
     (let n = (of_char c :: nat)
      in if (65 \<le> n \<and> n \<le> 90) \<or> (192 \<le> n \<and> n \<le> 214) \<or> (216 \<le> n \<and> n \<le> 222)
         then char_of (n + 32) else c)"

definition upper_char :: "char \<Rightarrow> char" where
  "upper_char c =
     (let n = (of_char c :: nat)
      in if (97 \<le> n \<and> n \<le> 122) \<or> (224 \<le> n \<and> n \<le> 246) \<or> (248 \<le> n \<and> n \<le> 254)
         then char_of (n - 32) else c)"

definition lower :: "string \<Rightarrow> string" where
  "lower s = map lower_char s"

definition upper :: "string \<Rightarrow> string" where
  "upper s = map upper_char s"

text \<open>The format specification \<^verbatim>\<open><6\<close>: left-aligned in a field of at least six.\<close>

definition ljust :: "nat \<Rightarrow> string \<Rightarrow> string" where
  "ljust w s = s @ replicate (w - length s) CHR '' ''"

section \<open>The clock\<close>

text \<open>\<^verbatim>\<open>datetime.now()\<close> is an input of the model. \<^verbatim>\<open>strftime("%Y-%m-%d %H:%M:%S")\<close>
  writes each field in decimal, padded with zeros to two digits, and the year to four (the
  years a clock gives have four digits). The separators alone make the text non-empty.\<close>

record datetime =
  year :: nat
  month :: nat
  day :: nat
  hour :: nat
  minute :: nat
  second :: nat

definition zfill :: "nat \<Rightarrow> string \<Rightarrow> string" where
  "zfill w s = replicate (w - length s) CHR ''0'' @ s"

definition strftime :: "datetime \<Rightarrow> string" where
  "strftime dt =
     zfill 4 (str_nat (year dt)) @ ''-'' @ zfill 2 (str_nat (month dt)) @ ''-'' @
     zfill 2 (str_nat (day dt)) @ '' '' @ zfill 2 (str_nat (hour dt)) @ '':'' @
     zfill 2 (str_nat (minute dt)) @ '':'' @ zfill 2 (str_nat (second dt))"

section \<open>Task\<close>

text \<open>The four attributes \<^verbatim>\<open>Task.__init__\<close> sets, with the types of the data model: the
  menu and \<^verbatim>\<open>add_task\<close> only ever build tasks of these types.\<close>

record Task =
  name :: string
  priority :: string
  completed :: bool
  created_date :: string

text \<open>
  \<^verbatim>\<open>Task.__init__(self, name, priority="Medium", completed=False, created_date=None)\<close>.
  The constructor stores its arguments as they are, whatever their types, and replaces a
  \<^verbatim>\<open>created_date\<close> that tests false by the current time. The arguments are Python values,
  since \<^verbatim>\<open>load_tasks\<close> passes what the file holds. The result is \<open>None\<close> where the
  constructor stores a value that the typed record cannot hold (a name that is not a
  \<^verbatim>\<open>str\<close>, say): the program goes on with such a task, the model does not follow it.
\<close>

definition Task_init :: "datetime \<Rightarrow> pyval \<Rightarrow> pyval \<Rightarrow> pyval \<Rightarrow> pyval \<Rightarrow> Task option" where
  "Task_init now n p c d =
     (case (n, p, c, if truthy d then d else PStr (strftime now)) of
        (PStr n', PStr p', PBool c', PStr d') \<Rightarrow>
          Some \<lparr>name = n', priority = p', completed = c', created_date = d'\<rparr>
      | _ \<Rightarrow> None)"

text \<open>\<^verbatim>\<open>Task.__str__\<close>.\<close>

definition Task_str :: "Task \<Rightarrow> string" where
  "Task_str t =
     (let status = (if completed t then ''[DONE]'' else ''[ ]'');
          priority_label = ''(P: '' @ ljust 6 (priority t) @ '')''
      in status @ '' '' @ priority_label @ '' '' @ name t @
         '' (Created: '' @ take 10 (created_date t) @ '')'')"

definition mark_complete :: "Task \<Rightarrow> Task" where
  "mark_complete t = t\<lparr>completed := True\<rparr>"

definition toggle_complete :: "Task \<Rightarrow> Task" where
  "toggle_complete t = t\<lparr>completed := \<not> completed t\<rparr>"

definition to_dict :: "Task \<Rightarrow> pyval" where
  "to_dict t =
     PDict [(''name'', PStr (name t)),
            (''priority'', PStr (priority t)),
            (''completed'', PBool (completed t)),
            (''created_date'', PStr (created_date t))]"

section \<open>TaskManager: the operations on the list in memory\<close>

record TaskManager =
  tasks :: "Task list"

text \<open>Every method takes the manager and returns the manager after the call, what the
  method returns, and what it printed.\<close>

definition add_task :: "datetime \<Rightarrow> string \<Rightarrow> string \<Rightarrow> TaskManager \<Rightarrow> TaskManager \<times> printed list" where
  "add_task now nm pr m =
     (let new_task = \<lparr>name = nm, priority = pr, completed = False,
                      created_date = strftime now\<rparr>
      in (m\<lparr>tasks := tasks m @ [new_task]\<rparr>,
          [Print (CHR 0x0A # ''Task '' @ [CHR 0x27] @ nm @ [CHR 0x27] @
                  '' added with priority '' @ [CHR 0x27] @ pr @ [CHR 0x27] @ ''.'')]))"

text \<open>\<^verbatim>\<open>for index, task in enumerate(task_list): print(f"{index + 1}. {task}")\<close>, from
  the index \<open>i\<close> on.\<close>

fun numbered :: "nat \<Rightarrow> Task list \<Rightarrow> printed list" where
  "numbered i [] = []"
| "numbered i (t # ts) = Print (str_nat (i + 1) @ ''. '' @ Task_str t) # numbered (i + 1) ts"

definition display_tasks :: "Task list option \<Rightarrow> TaskManager \<Rightarrow> Task list option \<times> printed list" where
  "display_tasks arg m =
     (let task_list = (case arg of None \<Rightarrow> tasks m | Some l \<Rightarrow> l)
      in if task_list = []
         then (None, [Print (CHR 0x0A # ''List is empty or filter returned no results.'')])
         else (Some task_list,
               [Print (CHR 0x0A # ''--- Current To-Do List ---'')] @
               numbered 0 task_list @
               [Print ''--------------------------'']))"

definition filter_tasks :: "string \<Rightarrow> TaskManager \<Rightarrow> Task list \<times> printed list" where
  "filter_tasks criterion m =
     (if lower criterion = ''all'' then (tasks m, [])
      else if lower criterion \<in> set [''low'', ''medium'', ''high'']
      then (filter (\<lambda>t. lower (priority t) = lower criterion) (tasks m),
            [Print (CHR 0x0A # ''--- Filtered by Priority: '' @ upper criterion @ '' ---'')])
      else if lower criterion = ''pending''
      then (filter (\<lambda>t. \<not> completed t) (tasks m),
            [Print (CHR 0x0A # ''--- Filtered: Pending Tasks Only ---'')])
      else if lower criterion = ''done''
      then (filter (\<lambda>t. completed t) (tasks m),
            [Print (CHR 0x0A # ''--- Filtered: Completed Tasks Only ---'')])
      else ([], [Print ''Invalid filter criterion. Options: All, Low, Medium, High, Pending, Done.'']))"

text \<open>\<^verbatim>\<open>delete_task\<close> and \<^verbatim>\<open>toggle_task\<close> take any integer; \<^verbatim>\<open>list.pop(index)\<close> and
  \<^verbatim>\<open>self.tasks[index]\<close> are only reached for \<^verbatim>\<open>0 <= index < len(self.tasks)\<close>.\<close>

definition delete_task :: "int \<Rightarrow> TaskManager \<Rightarrow> TaskManager \<times> printed list" where
  "delete_task index m =
     (if 0 \<le> index \<and> index < int (length (tasks m))
      then (let removed_task = tasks m ! nat index
            in (m\<lparr>tasks := take (nat index) (tasks m) @ drop (Suc (nat index)) (tasks m)\<rparr>,
                [Print (CHR 0x0A # ''Task '' @ [CHR 0x27] @ name removed_task @ [CHR 0x27] @
                        '' deleted.'')]))
      else (m, [Print (CHR 0x0A # ''Error: Task number is out of range.'')]))"

definition toggle_task :: "int \<Rightarrow> TaskManager \<Rightarrow> TaskManager \<times> printed list" where
  "toggle_task index m =
     (if 0 \<le> index \<and> index < int (length (tasks m))
      then (let ts = (tasks m)[nat index := toggle_complete (tasks m ! nat index)];
                status = (if completed (ts ! nat index) then ''DONE'' else ''PENDING'')
            in (m\<lparr>tasks := ts\<rparr>,
                [Print (CHR 0x0A # ''Task '' @ [CHR 0x27] @ name (ts ! nat index) @ [CHR 0x27] @
                        '' status set to '' @ status @ ''.'')]))
      else (m, [Print (CHR 0x0A # ''Error: Task number is out of range.'')]))"

section \<open>TaskManager: sorting\<close>

text \<open>
  \<^verbatim>\<open>self.tasks.sort(key=attrgetter(key), reverse=reverse)\<close> reads the attribute named by
  the string \<^verbatim>\<open>key\<close> from every task. The four attributes of the record are known from
  \<^verbatim>\<open>Task.__init__\<close>. Any other name (a method such as \<^verbatim>\<open>to_dict\<close>, an attribute every
  object has, a dotted path such as \<^verbatim>\<open>name.__class__\<close>) is answered by Python's object
  model, which is an input of the model: \<open>None\<close> where the lookup raises
  \<^verbatim>\<open>AttributeError\<close>, and otherwise the value as far as sorting can tell values apart:
  a \<^verbatim>\<open>str\<close>, a \<^verbatim>\<open>bool\<close> or an \<^verbatim>\<open>int\<close>, or an object that \<^verbatim>\<open><\<close> does not order.
\<close>

datatype keyval = KStr string | KBool bool | KInt int | KObject

type_synonym runtime = "string \<Rightarrow> Task \<Rightarrow> keyval option"

definition attrgetter :: "runtime \<Rightarrow> string \<Rightarrow> Task \<Rightarrow> exn + keyval" where
  "attrgetter rt key t =
     (if key = ''name'' then Inr (KStr (name t))
      else if key = ''priority'' then Inr (KStr (priority t))
      else if key = ''completed'' then Inr (KBool (completed t))
      else if key = ''created_date'' then Inr (KStr (created_date t))
      else (case rt key t of None \<Rightarrow> Inl AttributeError | Some v \<Rightarrow> Inr v))"

text \<open>A runtime in which a task has no attribute but the four of the record.\<close>

definition fields_only :: runtime where
  "fields_only key t = None"

text \<open>The keys of all elements are computed first, in order; the first exception of the
  key function leaves the list as it was.\<close>

fun keys_of :: "('a \<Rightarrow> exn + keyval) \<Rightarrow> 'a list \<Rightarrow> exn + keyval list" where
  "keys_of f [] = Inr []"
| "keys_of f (x # xs) =
     (case f x of
        Inl e \<Rightarrow> Inl e
      | Inr k \<Rightarrow> (case keys_of f xs of Inl e \<Rightarrow> Inl e | Inr ks \<Rightarrow> Inr (k # ks)))"

fun is_str :: "keyval \<Rightarrow> bool" where
  "is_str (KStr s) = True"
| "is_str k = False"

fun is_num :: "keyval \<Rightarrow> bool" where
  "is_num (KBool b) = True"
| "is_num (KInt i) = True"
| "is_num k = False"

fun str_of :: "keyval \<Rightarrow> string" where
  "str_of (KStr s) = s"
| "str_of k = []"

text \<open>\<^verbatim>\<open>bool\<close> is a subclass of \<^verbatim>\<open>int\<close>: \<^verbatim>\<open>False\<close> and \<^verbatim>\<open>True\<close> compare as 0 and 1.\<close>

fun num_of :: "keyval \<Rightarrow> int" where
  "num_of (KBool b) = (if b then 1 else 0)"
| "num_of (KInt i) = i"
| "num_of k = 0"

text \<open>The sort is stable. With \<^verbatim>\<open>reverse=True\<close> the list is reversed, sorted, and reversed
  again, so that elements with equal keys keep their order.\<close>

definition stable_sort :: "('k::linorder) list \<Rightarrow> 'a list \<Rightarrow> bool \<Rightarrow> 'a list" where
  "stable_sort ks xs reverse =
     (if reverse then rev (map snd (sort_key fst (rev (zip ks xs))))
      else map snd (sort_key fst (zip ks xs)))"

text \<open>
  \<^verbatim>\<open>list.sort(key=f, reverse=r)\<close>. A list of fewer than two elements is compared with
  nothing. Otherwise strings are ordered among themselves and numbers among themselves;
  any other pair of keys makes \<^verbatim>\<open><\<close> raise \<^verbatim>\<open>TypeError\<close>, and a sort cannot finish
  without comparing such a pair.
\<close>

definition list_sort :: "('a \<Rightarrow> exn + keyval) \<Rightarrow> bool \<Rightarrow> 'a list \<Rightarrow> exn + 'a list" where
  "list_sort f reverse xs =
     (case keys_of f xs of
        Inl e \<Rightarrow> Inl e
      | Inr ks \<Rightarrow>
          if length xs < 2 then Inr xs
          else if list_all is_str ks then Inr (stable_sort (map str_of ks) xs reverse)
          else if list_all is_num ks then Inr (stable_sort (map num_of ks) xs reverse)
          else Inl TypeError)"

text \<open>\<^verbatim>\<open>sort_tasks\<close> catches \<^verbatim>\<open>AttributeError\<close> only: \<open>Inl e\<close> is an exception that
  leaves \<^verbatim>\<open>sort_tasks\<close>, and the menu loop has no handler for it.\<close>

definition sort_tasks :: "runtime \<Rightarrow> string \<Rightarrow> bool \<Rightarrow> TaskManager \<Rightarrow> exn + TaskManager \<times> printed list" where
  "sort_tasks rt key reverse m =
     (case list_sort (attrgetter rt key) reverse (tasks m) of
        Inr ts \<Rightarrow>
          Inr (m\<lparr>tasks := ts\<rparr>,
               [Print (CHR 0x0A # ''Tasks sorted by '' @ key @ '' (Reverse: '' @
                       str_bool reverse @ '').'')])
      | Inl AttributeError \<Rightarrow>
          (case list_sort (attrgetter rt ''created_date'') False (tasks m) of
             Inr ts \<Rightarrow>
               Inr (m\<lparr>tasks := ts\<rparr>,
                    [Print (CHR 0x0A # ''Invalid sorting key: '' @ key @
                            ''. Defaulting to creation date.'')])
           | Inl e \<Rightarrow> Inl e)
      | Inl e \<Rightarrow> Inl e)"

section \<open>TaskManager: the file\<close>

text \<open>
  The file \<^verbatim>\<open>data.json\<close>: its text if it exists, and whether \<^verbatim>\<open>open\<close> succeeds for
  reading and for writing (it raises \<^verbatim>\<open>OSError\<close> otherwise).
\<close>

record disk =
  content :: "string option"
  readable :: bool
  writable :: bool

text \<open>The \<^verbatim>\<open>json\<close> module is Python's, an input of the model: \<open>json_load\<close> is \<open>None\<close>
  where \<^verbatim>\<open>json.load\<close> raises \<^verbatim>\<open>JSONDecodeError\<close>, and \<open>json_dump\<close> is the text
  \<^verbatim>\<open>json.dump(data, f, indent=4)\<close> writes.\<close>

record json_module =
  json_load :: "string \<Rightarrow> pyval option"
  json_dump :: "pyval \<Rightarrow> string"

text \<open>What \<^verbatim>\<open>for task_dict in data\<close> goes through: the elements of a list, the keys of
  a \<^verbatim>\<open>dict\<close>, the characters of a \<^verbatim>\<open>str\<close>; nothing else can be iterated.\<close>

fun iterate :: "pyval \<Rightarrow> exn + pyval list" where
  "iterate (PList xs) = Inr xs"
| "iterate (PDict kvs) = Inr (map (\<lambda>kv. PStr (fst kv)) kvs)"
| "iterate (PStr s) = Inr (map (\<lambda>c. PStr [c]) s)"
| "iterate v = Inl TypeError"

text \<open>The three results of building a task from a value of the file: the task, an
  exception, or a task with an attribute that the typed record cannot hold.\<close>

datatype 'a built = Built 'a | Raised exn | Untyped

definition kwarg :: "(string \<times> pyval) list \<Rightarrow> string \<Rightarrow> pyval \<Rightarrow> pyval" where
  "kwarg kvs k dflt = (case map_of kvs k of None \<Rightarrow> dflt | Some v \<Rightarrow> v)"

text \<open>\<^verbatim>\<open>Task(**task_dict)\<close>: \<^verbatim>\<open>TypeError\<close> when \<^verbatim>\<open>task_dict\<close> is not a mapping, when it
  has a key that is not a parameter of \<^verbatim>\<open>__init__\<close>, and when it has no \<^verbatim>\<open>name\<close>.\<close>

fun Task_kwargs :: "datetime \<Rightarrow> pyval \<Rightarrow> Task built" where
  "Task_kwargs now (PDict kvs) =
     (if \<not> list_all (\<lambda>kv. fst kv \<in> set [''name'', ''priority'', ''completed'', ''created_date'']) kvs
      then Raised TypeError
      else (case map_of kvs ''name'' of
              None \<Rightarrow> Raised TypeError
            | Some n \<Rightarrow>
                (case Task_init now n (kwarg kvs ''priority'' (PStr ''Medium''))
                        (kwarg kvs ''completed'' (PBool False))
                        (kwarg kvs ''created_date'' PNone) of
                   None \<Rightarrow> Untyped
                 | Some t \<Rightarrow> Built t)))"
| "Task_kwargs now v = Raised TypeError"

text \<open>\<^verbatim>\<open>[Task(**task_dict) for task_dict in data]\<close>, the element at index \<open>i\<close> being built
  at the time \<open>clock i\<close>. The first exception ends the comprehension, whatever was built
  before it.\<close>

fun build_all :: "(nat \<Rightarrow> datetime) \<Rightarrow> nat \<Rightarrow> pyval list \<Rightarrow> Task list built" where
  "build_all clock i [] = Built []"
| "build_all clock i (v # vs) =
     (case Task_kwargs (clock i) v of
        Raised e \<Rightarrow> Raised e
      | Untyped \<Rightarrow> (case build_all clock (i + 1) vs of Raised e \<Rightarrow> Raised e | _ \<Rightarrow> Untyped)
      | Built t \<Rightarrow>
          (case build_all clock (i + 1) vs of
             Raised e \<Rightarrow> Raised e
           | Untyped \<Rightarrow> Untyped
           | Built ts \<Rightarrow> Built (t # ts)))"

text \<open>The body of the \<^verbatim>\<open>try\<close> in \<^verbatim>\<open>load_tasks\<close>, up to the assignment.\<close>

definition read_tasks :: "json_module \<Rightarrow> (nat \<Rightarrow> datetime) \<Rightarrow> disk \<Rightarrow> string \<Rightarrow> Task list built" where
  "read_tasks js clock d text =
     (if \<not> readable d then Raised OSError
      else (case json_load js text of
              None \<Rightarrow> Raised JSONDecodeError
            | Some data \<Rightarrow>
                (case iterate data of
                   Inl e \<Rightarrow> Raised e
                 | Inr vs \<Rightarrow> build_all clock 0 vs)))"

text \<open>\<^verbatim>\<open>load_tasks\<close>. The handler \<^verbatim>\<open>except (json.JSONDecodeError, Exception)\<close> catches
  every exception of the body. The result is \<open>None\<close> only where the file holds a task
  that the typed record cannot hold.\<close>

definition load_tasks :: "json_module \<Rightarrow> (nat \<Rightarrow> datetime) \<Rightarrow> disk \<Rightarrow> TaskManager \<Rightarrow> (TaskManager \<times> printed list) option" where
  "load_tasks js clock d m =
     (case content d of
        None \<Rightarrow> Some (m, [])
      | Some text \<Rightarrow>
          if length text = 0 then Some (m, [])
          else (case read_tasks js clock d text of
                  Built ts \<Rightarrow>
                    Some (m\<lparr>tasks := ts\<rparr>,
                          [Print (''Loaded '' @ str_nat (length ts) @ '' tasks.'')])
                | Raised e \<Rightarrow>
                    Some (m, [Print_exn ''Error loading tasks: '' e ''. Starting with empty list.''])
                | Untyped \<Rightarrow> None))"

text \<open>\<^verbatim>\<open>TaskManager.__init__\<close>.\<close>

definition TaskManager_init :: "json_module \<Rightarrow> (nat \<Rightarrow> datetime) \<Rightarrow> disk \<Rightarrow> (TaskManager \<times> printed list) option" where
  "TaskManager_init js clock d = load_tasks js clock d \<lparr>tasks = []\<rparr>"

text \<open>\<^verbatim>\<open>save_tasks\<close> returns the file after the call and what it printed; the manager
  is not changed.\<close>

definition save_tasks :: "json_module \<Rightarrow> disk \<Rightarrow> TaskManager \<Rightarrow> disk \<times> printed list" where
  "save_tasks js d m =
     (let data_to_save = PList (map to_dict (tasks m))
      in if writable d
         then (d\<lparr>content := Some (json_dump js data_to_save)\<rparr>, [Print ''Tasks saved successfully!''])
         else (d, [Print_exn ''Error saving tasks: '' OSError []]))"

declare str_nat.simps [simp del]

section \<open>Auxiliary facts\<close>

subsection \<open>Strings and the constructor\<close>

lemma str_nat_1: "str_nat (Suc 0) = ''1''"
  by code_simp

lemma ljust_High: "ljust 6 ''High'' = ''High  ''"
  by code_simp

lemma strftime_nonempty: "strftime dt \<noteq> []"
  by (simp add: strftime_def)

lemma Task_init_typed:
  "Task_init now (PStr n) (PStr p) (PBool c) d =
     (if truthy d
      then (case d of
              PStr s \<Rightarrow> Some \<lparr>name = n, priority = p, completed = c, created_date = s\<rparr>
            | _ \<Rightarrow> None)
      else Some \<lparr>name = n, priority = p, completed = c, created_date = strftime now\<rparr>)"
  by (cases d) (simp_all add: Task_init_def)

lemma Task_init_falsy:
  "\<not> truthy d \<Longrightarrow> Task_init now n p c d = Task_init now n p c (PStr (strftime now))"
  by (simp add: Task_init_def strftime_nonempty)

lemma Task_init_nonempty: "Task_init now n p c d = Some t \<Longrightarrow> created_date t \<noteq> []"
  by (auto simp: Task_init_def strftime_nonempty split: pyval.splits if_splits)

subsection \<open>Rebuilding what \<open>to_dict\<close> wrote\<close>

lemma Task_kwargs_to_dict:
  "created_date t \<noteq> [] \<Longrightarrow> Task_kwargs now (to_dict t) = Built t"
  by (simp add: to_dict_def kwarg_def Task_init_def)

lemma Task_kwargs_empty_date:
  "Task_kwargs now (to_dict (t\<lparr>created_date := []\<rparr>)) = Built (t\<lparr>created_date := strftime now\<rparr>)"
  by (simp add: to_dict_def kwarg_def Task_init_def)

lemma build_all_to_dict:
  "list_all (\<lambda>t. created_date t \<noteq> []) ts \<Longrightarrow> build_all clock i (map to_dict ts) = Built ts"
  by (induction ts arbitrary: i) (simp_all add: Task_kwargs_to_dict)

lemma save_tasks_writable:
  "writable d \<Longrightarrow>
     save_tasks js d m =
       (d\<lparr>content := Some (json_dump js (PList (map to_dict (tasks m))))\<rparr>,
        [Print ''Tasks saved successfully!''])"
  by (simp add: save_tasks_def)

text \<open>When the body of the \<^verbatim>\<open>try\<close> raises, \<^verbatim>\<open>load_tasks\<close> prints and leaves the list
  of the manager as it was.\<close>

lemma load_tasks_failure:
  assumes "content d = Some text" and "text \<noteq> []" and "read_tasks js clock d text = Raised e"
  shows "load_tasks js clock d m =
           Some (m, [Print_exn ''Error loading tasks: '' e ''. Starting with empty list.''])"
  using assms by (simp add: load_tasks_def)

subsection \<open>The sort\<close>

lemma keys_of_length: "keys_of f xs = Inr ks \<Longrightarrow> length ks = length xs"
  by (induction xs arbitrary: ks) (auto split: sum.splits)

lemma keys_of_total: "keys_of (\<lambda>t. Inr (g t)) xs = Inr (map g xs)"
  by (induction xs) simp_all

lemma keys_of_error: "keys_of f xs = Inl e \<Longrightarrow> \<exists>x \<in> set xs. f x = Inl e"
  by (induction xs) (auto split: sum.splits)

lemma mset_map_snd_sort_zip:
  assumes "length ks = length xs"
  shows "mset (map snd (sort_key fst (zip ks xs))) = mset xs"
proof -
  have "mset (map snd (sort_key fst (zip ks xs))) = image_mset snd (mset (zip ks xs))"
    by simp
  also have "\<dots> = mset (map snd (zip ks xs))"
    by simp
  also have "\<dots> = mset xs"
    using assms by (simp only: map_snd_zip)
  finally show ?thesis .
qed

lemma mset_stable_sort:
  assumes "length ks = length xs"
  shows "mset (stable_sort ks xs r) = mset xs"
proof (cases r)
  case False
  then show ?thesis
    using assms by (simp only: stable_sort_def mset_map_snd_sort_zip if_False)
next
  case True
  have "zip (rev ks) (rev xs) = rev (zip ks xs)"
    using assms by (simp add: zip_rev)
  moreover have "mset (map snd (sort_key fst (zip (rev ks) (rev xs)))) = mset (rev xs)"
    using assms by (intro mset_map_snd_sort_zip) simp
  ultimately show ?thesis
    using True by (simp add: stable_sort_def)
qed

lemma list_sort_mset: "list_sort f r xs = Inr ys \<Longrightarrow> mset ys = mset xs"
  by (auto simp: list_sort_def mset_stable_sort keys_of_length split: sum.splits if_splits)

text \<open>Sorting the pairs of key and element by the key is sorting the elements by the
  function that gave the keys.\<close>

lemma insort_key_decorate:
  "insort_key fst (f x, x) (map (\<lambda>y. (f y, y)) ys) = map (\<lambda>y. (f y, y)) (insort_key f x ys)"
  by (induction ys) simp_all

lemma sort_key_decorate:
  "sort_key fst (map (\<lambda>y. (f y, y)) xs) = map (\<lambda>y. (f y, y)) (sort_key f xs)"
  by (induction xs) (simp_all add: insort_key_decorate)

lemma zip_map_self: "zip (map f xs) xs = map (\<lambda>y. (f y, y)) xs"
  by (induction xs) simp_all

lemma stable_sort_by_key: "stable_sort (map f xs) xs False = sort_key f xs"
  by (simp add: stable_sort_def zip_map_self sort_key_decorate comp_def)

lemma list_sort_created_date:
  "list_sort (attrgetter rt ''created_date'') False xs = Inr (sort_key created_date xs)"
proof -
  have f: "attrgetter rt ''created_date'' = (\<lambda>t. Inr (KStr (created_date t)))"
    by (rule ext) (simp add: attrgetter_def)
  have short: "length xs < 2 \<Longrightarrow> sort_key created_date xs = xs"
    by (cases xs) (auto simp: less_Suc_eq numeral_2_eq_2)
  have strs: "list_all is_str (map (\<lambda>t. KStr (created_date t)) xs)"
    by (simp add: list_all_iff)
  have "map str_of (map (\<lambda>t. KStr (created_date t)) xs) = map created_date xs"
    by simp
  then show ?thesis
    using short strs by (simp add: list_sort_def f keys_of_total stable_sort_by_key comp_def)
qed

lemma attrgetter_priority: "attrgetter rt ''priority'' t = Inr (KStr (priority t))"
  by (simp add: attrgetter_def)

lemma attrgetter_error: "attrgetter rt key t = Inl e \<Longrightarrow> e = AttributeError"
  by (auto simp: attrgetter_def split: if_splits option.splits)

lemma list_sort_error: "list_sort f r xs = Inl e \<Longrightarrow> keys_of f xs = Inl e \<or> e = TypeError"
  by (auto simp: list_sort_def split: sum.splits if_splits)

lemma list_sort_attrgetter_error:
  "list_sort (attrgetter rt key) r xs = Inl e \<Longrightarrow> e = AttributeError \<or> e = TypeError"
  using list_sort_error keys_of_error attrgetter_error by blast

lemma list_sort_short: "length xs < 2 \<Longrightarrow> list_sort f r xs = Inl e \<Longrightarrow> keys_of f xs = Inl e"
  by (auto simp: list_sort_def split: sum.splits if_splits)

lemma list_sort_no_attr:
  assumes "\<And>t. f t = Inl AttributeError"
  shows "list_sort f r xs = (if xs = [] then Inr [] else Inl AttributeError)"
  by (cases xs) (simp_all add: list_sort_def assms)

lemma list_sort_returns_str:
  assumes "\<And>t. f t = Inr (KStr (g t))"
  shows "\<exists>ys. list_sort f r xs = Inr ys"
proof -
  have "f = (\<lambda>t. Inr (KStr (g t)))"
    using assms by (intro ext)
  then show ?thesis
    by (simp add: list_sort_def keys_of_total list_all_iff)
qed

lemma list_sort_returns_bool:
  assumes "\<And>t. f t = Inr (KBool (g t))"
  shows "\<exists>ys. list_sort f r xs = Inr ys"
proof -
  have "f = (\<lambda>t. Inr (KBool (g t)))"
    using assms by (intro ext)
  then show ?thesis
    by (simp add: list_sort_def keys_of_total list_all_iff)
qed

lemma list_sort_returns_field:
  assumes "key \<in> {''name'', ''priority'', ''completed'', ''created_date''}"
  shows "\<exists>ys. list_sort (attrgetter rt key) r xs = Inr ys"
proof -
  consider "key = ''name''" | "key = ''priority''" | "key = ''completed''"
    | "key = ''created_date''"
    using assms by blast
  then show ?thesis
  proof cases
    case 1
    then show ?thesis
      by (intro list_sort_returns_str [where g = name]) (simp add: attrgetter_def)
  next
    case 2
    then show ?thesis
      by (intro list_sort_returns_str [where g = priority]) (simp add: attrgetter_def)
  next
    case 3
    then show ?thesis
      by (intro list_sort_returns_bool [where g = completed]) (simp add: attrgetter_def)
  next
    case 4
    then show ?thesis
      by (intro list_sort_returns_str [where g = created_date]) (simp add: attrgetter_def)
  qed
qed

text \<open>\<^verbatim>\<open>sort_tasks\<close> by the result of its first sort.\<close>

lemma sort_tasks_cases:
  "sort_tasks rt key r m =
     (case list_sort (attrgetter rt key) r (tasks m) of
        Inr ts \<Rightarrow>
          Inr (m\<lparr>tasks := ts\<rparr>,
               [Print (CHR 0x0A # ''Tasks sorted by '' @ key @ '' (Reverse: '' @
                       str_bool r @ '').'')])
      | Inl e \<Rightarrow>
          if e = AttributeError
          then Inr (m\<lparr>tasks := sort_key created_date (tasks m)\<rparr>,
                    [Print (CHR 0x0A # ''Invalid sorting key: '' @ key @
                            ''. Defaulting to creation date.'')])
          else Inl e)"
  by (simp add: sort_tasks_def list_sort_created_date split: sum.splits exn.splits)

lemma sort_tasks_mset:
  "sort_tasks rt key r m = Inr (m', out) \<Longrightarrow> mset (tasks m') = mset (tasks m)"
  by (auto simp: sort_tasks_cases list_sort_mset split: sum.splits if_splits)

subsection \<open>The filter\<close>

lemma filter_tasks_done:
  "filter_tasks ''done'' m =
     (filter completed (tasks m), [Print (CHR 0x0A # ''--- Filtered: Completed Tasks Only ---'')])"
  by (simp add: filter_tasks_def lower_def lower_char_def)

lemma filter_tasks_pending:
  "filter_tasks ''pending'' m =
     (filter (\<lambda>t. \<not> completed t) (tasks m),
      [Print (CHR 0x0A # ''--- Filtered: Pending Tasks Only ---'')])"
  by (simp add: filter_tasks_def lower_def lower_char_def)

section \<open>The properties of the specification\<close>

text \<open>
  C1. Saving a collection and loading the file again gives the collection back, field by
  field. It holds for every collection whose tasks have a \<open>created_date\<close> that is not
  empty (so for every collection of valid tasks, empty or not), when the file can be
  written and read and \<^verbatim>\<open>json.load\<close> decodes what \<^verbatim>\<open>json.dump\<close> wrote for this
  collection. The load is the one of a fresh manager, and also the one of a manager
  \<open>m0\<close> that had other tasks before.
\<close>

theorem save_load_roundtrip:
  assumes "list_all (\<lambda>t. created_date t \<noteq> []) (tasks m)"
    and "writable d" and "readable d"
    and "json_load js (json_dump js (PList (map to_dict (tasks m)))) =
           Some (PList (map to_dict (tasks m)))"
    and "json_dump js (PList (map to_dict (tasks m))) \<noteq> []"
  shows "TaskManager_init js clock (fst (save_tasks js d m)) =
           Some (m, [Print (''Loaded '' @ str_nat (length (tasks m)) @ '' tasks.'')])
         \<and> load_tasks js clock (fst (save_tasks js d m)) m0 =
           Some (m, [Print (''Loaded '' @ str_nat (length (tasks m)) @ '' tasks.'')])"
proof -
  let ?text = "json_dump js (PList (map to_dict (tasks m)))"
  let ?d = "d\<lparr>content := Some ?text\<rparr>"
  have d: "fst (save_tasks js d m) = ?d"
    using assms(2) by (simp add: save_tasks_writable)
  have "read_tasks js clock ?d ?text = Built (tasks m)"
    using assms(1,3,4) by (simp add: read_tasks_def build_all_to_dict)
  then have "load_tasks js clock ?d m1 =
               Some (m1\<lparr>tasks := tasks m\<rparr>,
                     [Print (''Loaded '' @ str_nat (length (tasks m)) @ '' tasks.'')])"
    for m1 :: TaskManager
    using assms(5) by (simp add: load_tasks_def)
  then show ?thesis
    by (simp add: d TaskManager_init_def)
qed

theorem save_load_roundtrip_witness:
  "TaskManager_init
     \<lparr>json_load = [''[A]'' \<mapsto> PList [to_dict \<lparr>name = ''A'', priority = ''Low'',
                      completed = True, created_date = ''2024-01-01 10:00:00''\<rparr>]],
      json_dump = (\<lambda>v. ''[A]'')\<rparr>
     (\<lambda>i. \<lparr>year = 2024, month = 3, day = 9, hour = 7, minute = 5, second = 0\<rparr>)
     (fst (save_tasks
        \<lparr>json_load = [''[A]'' \<mapsto> PList [to_dict \<lparr>name = ''A'', priority = ''Low'',
                         completed = True, created_date = ''2024-01-01 10:00:00''\<rparr>]],
         json_dump = (\<lambda>v. ''[A]'')\<rparr>
        \<lparr>content = None, readable = True, writable = True\<rparr>
        \<lparr>tasks = [\<lparr>name = ''A'', priority = ''Low'', completed = True,
                   created_date = ''2024-01-01 10:00:00''\<rparr>]\<rparr>)) =
   Some (\<lparr>tasks = [\<lparr>name = ''A'', priority = ''Low'', completed = True,
                     created_date = ''2024-01-01 10:00:00''\<rparr>]\<rparr>,
         [Print ''Loaded 1 tasks.''])"
  using save_load_roundtrip
    [of "\<lparr>tasks = [\<lparr>name = ''A'', priority = ''Low'', completed = True,
                     created_date = ''2024-01-01 10:00:00''\<rparr>]\<rparr>"
        "\<lparr>content = None, readable = True, writable = True\<rparr>"
        "\<lparr>json_load = [''[A]'' \<mapsto> PList [to_dict \<lparr>name = ''A'', priority = ''Low'',
                         completed = True, created_date = ''2024-01-01 10:00:00''\<rparr>]],
          json_dump = (\<lambda>v. ''[A]'')\<rparr>"
        "\<lambda>i. \<lparr>year = 2024, month = 3, day = 9, hour = 7, minute = 5, second = 0\<rparr>"]
  by (simp add: str_nat_1)

text \<open>
  C2. With the tasks \<open>a\<close> of priority Low and \<open>b\<close> of priority High, in this order, sorting
  by \<^verbatim>\<open>priority\<close> without \<^verbatim>\<open>reverse\<close> gives \<open>b\<close> before \<open>a\<close>: the labels are compared
  as strings, and High is before Low, which is before Medium.
\<close>

theorem sort_by_priority_lexical:
  assumes "priority a = ''Low''" and "priority b = ''High''"
  shows "sort_tasks rt ''priority'' False \<lparr>tasks = [a, b]\<rparr> =
           Inr (\<lparr>tasks = [b, a]\<rparr>,
                [Print (CHR 0x0A # ''Tasks sorted by priority (Reverse: False).'')])
         \<and> ''High'' < ''Low'' \<and> ''Low'' < ''Medium''"
  using assms
  by (simp add: sort_tasks_def list_sort_def attrgetter_priority stable_sort_def str_bool_def)

theorem sort_by_priority_lexical_witness:
  "sort_tasks fields_only ''priority'' False
     \<lparr>tasks = [\<lparr>name = ''A'', priority = ''Low'', completed = False,
                created_date = ''2024-01-01 10:00:00''\<rparr>,
               \<lparr>name = ''B'', priority = ''High'', completed = False,
                created_date = ''2024-01-02 10:00:00''\<rparr>]\<rparr> =
   Inr (\<lparr>tasks = [\<lparr>name = ''B'', priority = ''High'', completed = False,
                    created_date = ''2024-01-02 10:00:00''\<rparr>,
                   \<lparr>name = ''A'', priority = ''Low'', completed = False,
                    created_date = ''2024-01-01 10:00:00''\<rparr>]\<rparr>,
        [Print (CHR 0x0A # ''Tasks sorted by priority (Reverse: False).'')])"
  using sort_by_priority_lexical
    [of "\<lparr>name = ''A'', priority = ''Low'', completed = False,
          created_date = ''2024-01-01 10:00:00''\<rparr>"
        "\<lparr>name = ''B'', priority = ''High'', completed = False,
          created_date = ''2024-01-02 10:00:00''\<rparr>"
        fields_only]
  by simp

text \<open>
  C3. \<^verbatim>\<open>delete_task\<close> with an index \<open>i\<close> from 0 up to the length, the length excluded,
  removes the task at \<open>i\<close>: the list is one shorter, the tasks before \<open>i\<close> stay where they
  were, those after \<open>i\<close> move down by one, and the name of the removed task is printed.
  With any other index, negative ones included, the manager is unchanged and the message
  for an index out of range is printed.
\<close>

theorem delete_task_spec:
  "(0 \<le> i \<and> i < int (length (tasks m)) \<longrightarrow>
      tasks (fst (delete_task i m)) = take (nat i) (tasks m) @ drop (nat i + 1) (tasks m)
      \<and> length (tasks (fst (delete_task i m))) = length (tasks m) - 1
      \<and> (\<forall>j. j < nat i \<longrightarrow> tasks (fst (delete_task i m)) ! j = tasks m ! j)
      \<and> (\<forall>j. nat i \<le> j \<and> j + 1 < length (tasks m) \<longrightarrow>
             tasks (fst (delete_task i m)) ! j = tasks m ! (j + 1))
      \<and> snd (delete_task i m) =
          [Print (CHR 0x0A # ''Task '' @ [CHR 0x27] @ name (tasks m ! nat i) @ [CHR 0x27] @
                  '' deleted.'')])
   \<and> (\<not> (0 \<le> i \<and> i < int (length (tasks m))) \<longrightarrow>
        delete_task i m = (m, [Print (CHR 0x0A # ''Error: Task number is out of range.'')]))"
proof (intro conjI impI)
  assume r: "0 \<le> i \<and> i < int (length (tasks m))"
  then have n: "nat i < length (tasks m)"
    by linarith
  show eq: "tasks (fst (delete_task i m)) = take (nat i) (tasks m) @ drop (nat i + 1) (tasks m)"
    using r by (simp add: delete_task_def Let_def)
  show "length (tasks (fst (delete_task i m))) = length (tasks m) - 1"
    using n by (simp add: eq)
  show "\<forall>j. j < nat i \<longrightarrow> tasks (fst (delete_task i m)) ! j = tasks m ! j"
    using n by (simp add: eq nth_append)
  show "\<forall>j. nat i \<le> j \<and> j + 1 < length (tasks m) \<longrightarrow>
          tasks (fst (delete_task i m)) ! j = tasks m ! (j + 1)"
    using n by (auto simp: eq nth_append min_def)
  show "snd (delete_task i m) =
          [Print (CHR 0x0A # ''Task '' @ [CHR 0x27] @ name (tasks m ! nat i) @ [CHR 0x27] @
                  '' deleted.'')]"
    using r by (simp add: delete_task_def Let_def)
next
  assume "\<not> (0 \<le> i \<and> i < int (length (tasks m)))"
  then show "delete_task i m = (m, [Print (CHR 0x0A # ''Error: Task number is out of range.'')])"
    by (simp add: delete_task_def)
qed

theorem delete_task_spec_witness:
  "tasks (fst (delete_task 0
     \<lparr>tasks = [\<lparr>name = ''A'', priority = ''Low'', completed = False,
                created_date = ''2024-01-01 10:00:00''\<rparr>,
               \<lparr>name = ''B'', priority = ''High'', completed = False,
                created_date = ''2024-01-02 10:00:00''\<rparr>]\<rparr>)) =
     [\<lparr>name = ''B'', priority = ''High'', completed = False,
       created_date = ''2024-01-02 10:00:00''\<rparr>]
   \<and> snd (delete_task 0
     \<lparr>tasks = [\<lparr>name = ''A'', priority = ''Low'', completed = False,
                created_date = ''2024-01-01 10:00:00''\<rparr>,
               \<lparr>name = ''B'', priority = ''High'', completed = False,
                created_date = ''2024-01-02 10:00:00''\<rparr>]\<rparr>) =
     [Print (CHR 0x0A # ''Task '' @ [CHR 0x27] @ ''A'' @ [CHR 0x27] @ '' deleted.'')]
   \<and> delete_task 2
     \<lparr>tasks = [\<lparr>name = ''A'', priority = ''Low'', completed = False,
                created_date = ''2024-01-01 10:00:00''\<rparr>,
               \<lparr>name = ''B'', priority = ''High'', completed = False,
                created_date = ''2024-01-02 10:00:00''\<rparr>]\<rparr> =
     (\<lparr>tasks = [\<lparr>name = ''A'', priority = ''Low'', completed = False,
                 created_date = ''2024-01-01 10:00:00''\<rparr>,
                \<lparr>name = ''B'', priority = ''High'', completed = False,
                 created_date = ''2024-01-02 10:00:00''\<rparr>]\<rparr>,
      [Print (CHR 0x0A # ''Error: Task number is out of range.'')])"
  using
    delete_task_spec
      [of 0 "\<lparr>tasks = [\<lparr>name = ''A'', priority = ''Low'', completed = False,
                        created_date = ''2024-01-01 10:00:00''\<rparr>,
                       \<lparr>name = ''B'', priority = ''High'', completed = False,
                        created_date = ''2024-01-02 10:00:00''\<rparr>]\<rparr>"]
    delete_task_spec
      [of 2 "\<lparr>tasks = [\<lparr>name = ''A'', priority = ''Low'', completed = False,
                        created_date = ''2024-01-01 10:00:00''\<rparr>,
                       \<lparr>name = ''B'', priority = ''High'', completed = False,
                        created_date = ''2024-01-02 10:00:00''\<rparr>]\<rparr>"]
  by simp

text \<open>
  C4. With an index in range, \<^verbatim>\<open>toggle_task\<close> called twice gives back the manager it
  started from: the flag of the task at the index has its first value again, and no other
  field and no other task has changed. One call changes the \<open>completed\<close> flag of the
  task at the index and nothing else.
\<close>

theorem toggle_task_involution:
  assumes "0 \<le> i" and "i < int (length (tasks m))"
  shows "fst (toggle_task i (fst (toggle_task i m))) = m
     \<and> tasks (fst (toggle_task i m)) =
         (tasks m)[nat i := (tasks m ! nat i)\<lparr>completed := \<not> completed (tasks m ! nat i)\<rparr>]"
  using assms by (simp add: toggle_task_def toggle_complete_def Let_def)

theorem toggle_task_involution_witness:
  "fst (toggle_task 1 (fst (toggle_task 1
     \<lparr>tasks = [\<lparr>name = ''A'', priority = ''Low'', completed = False,
                created_date = ''2024-01-01 10:00:00''\<rparr>,
               \<lparr>name = ''B'', priority = ''High'', completed = True,
                created_date = ''2024-01-02 10:00:00''\<rparr>]\<rparr>))) =
     \<lparr>tasks = [\<lparr>name = ''A'', priority = ''Low'', completed = False,
                created_date = ''2024-01-01 10:00:00''\<rparr>,
               \<lparr>name = ''B'', priority = ''High'', completed = True,
                created_date = ''2024-01-02 10:00:00''\<rparr>]\<rparr>
   \<and> tasks (fst (toggle_task 1
     \<lparr>tasks = [\<lparr>name = ''A'', priority = ''Low'', completed = False,
                created_date = ''2024-01-01 10:00:00''\<rparr>,
               \<lparr>name = ''B'', priority = ''High'', completed = True,
                created_date = ''2024-01-02 10:00:00''\<rparr>]\<rparr>)) =
     [\<lparr>name = ''A'', priority = ''Low'', completed = False,
       created_date = ''2024-01-01 10:00:00''\<rparr>,
      \<lparr>name = ''B'', priority = ''High'', completed = False,
       created_date = ''2024-01-02 10:00:00''\<rparr>]"
  using toggle_task_involution
    [of 1 "\<lparr>tasks = [\<lparr>name = ''A'', priority = ''Low'', completed = False,
                      created_date = ''2024-01-01 10:00:00''\<rparr>,
                     \<lparr>name = ''B'', priority = ''High'', completed = True,
                      created_date = ''2024-01-02 10:00:00''\<rparr>]\<rparr>"]
  by simp

text \<open>
  C5. The criterion \<^verbatim>\<open>done\<close> selects the tasks whose \<open>completed\<close> flag is set and the
  criterion \<^verbatim>\<open>pending\<close> those whose flag is not set, both in the order of the collection.
  The two results split the collection: together they hold every task as often as the
  collection does, and no task is in both.
\<close>

theorem filter_done_pending_partition:
  "fst (filter_tasks ''done'' m) = filter (\<lambda>t. completed t) (tasks m)
   \<and> fst (filter_tasks ''pending'' m) = filter (\<lambda>t. \<not> completed t) (tasks m)
   \<and> mset (fst (filter_tasks ''done'' m)) + mset (fst (filter_tasks ''pending'' m)) =
       mset (tasks m)
   \<and> set (fst (filter_tasks ''done'' m)) \<inter> set (fst (filter_tasks ''pending'' m)) = {}
   \<and> set (fst (filter_tasks ''done'' m)) \<union> set (fst (filter_tasks ''pending'' m)) =
       set (tasks m)"
  by (auto simp: filter_tasks_done filter_tasks_pending)

theorem filter_done_pending_partition_witness:
  "fst (filter_tasks ''done''
     \<lparr>tasks = [\<lparr>name = ''A'', priority = ''Low'', completed = False,
                created_date = ''2024-01-01 10:00:00''\<rparr>,
               \<lparr>name = ''B'', priority = ''High'', completed = True,
                created_date = ''2024-01-02 10:00:00''\<rparr>]\<rparr>) =
     [\<lparr>name = ''B'', priority = ''High'', completed = True,
       created_date = ''2024-01-02 10:00:00''\<rparr>]
   \<and> fst (filter_tasks ''pending''
     \<lparr>tasks = [\<lparr>name = ''A'', priority = ''Low'', completed = False,
                created_date = ''2024-01-01 10:00:00''\<rparr>,
               \<lparr>name = ''B'', priority = ''High'', completed = True,
                created_date = ''2024-01-02 10:00:00''\<rparr>]\<rparr>) =
     [\<lparr>name = ''A'', priority = ''Low'', completed = False,
       created_date = ''2024-01-01 10:00:00''\<rparr>]"
  using filter_done_pending_partition
    [of "\<lparr>tasks = [\<lparr>name = ''A'', priority = ''Low'', completed = False,
                    created_date = ''2024-01-01 10:00:00''\<rparr>,
                   \<lparr>name = ''B'', priority = ''High'', completed = True,
                    created_date = ''2024-01-02 10:00:00''\<rparr>]\<rparr>"]
  by simp

text \<open>
  C6, as the code has it. When the collection is not empty and the key names no attribute
  of a task, \<^verbatim>\<open>sort_tasks\<close> prints the message for an invalid key and sorts the
  collection by \<open>created_date\<close>, ascending, whatever \<^verbatim>\<open>reverse\<close> was: the result is in
  the order of \<open>created_date\<close> and holds the same tasks. The key is only looked up on
  the tasks of the collection, so an empty collection prints no such message.
\<close>

theorem sort_invalid_key_fallback:
  assumes "tasks m \<noteq> []" and "\<And>t. attrgetter rt key t = Inl AttributeError"
  shows "sort_tasks rt key reverse m =
           Inr (m\<lparr>tasks := sort_key created_date (tasks m)\<rparr>,
                [Print (CHR 0x0A # ''Invalid sorting key: '' @ key @
                        ''. Defaulting to creation date.'')])
         \<and> sorted (map created_date (sort_key created_date (tasks m)))
         \<and> mset (sort_key created_date (tasks m)) = mset (tasks m)"
proof -
  have "list_sort (attrgetter rt key) reverse (tasks m) = Inl AttributeError"
    using assms by (simp add: list_sort_no_attr)
  then show ?thesis
    by (simp add: sort_tasks_cases)
qed

theorem sort_invalid_key_fallback_witness:
  "sort_tasks fields_only ''bogus'' True
     \<lparr>tasks = [\<lparr>name = ''B'', priority = ''High'', completed = False,
                created_date = ''2024-01-02 10:00:00''\<rparr>,
               \<lparr>name = ''A'', priority = ''Low'', completed = False,
                created_date = ''2024-01-01 10:00:00''\<rparr>]\<rparr> =
   Inr (\<lparr>tasks = [\<lparr>name = ''A'', priority = ''Low'', completed = False,
                    created_date = ''2024-01-01 10:00:00''\<rparr>,
                   \<lparr>name = ''B'', priority = ''High'', completed = False,
                    created_date = ''2024-01-02 10:00:00''\<rparr>]\<rparr>,
        [Print (CHR 0x0A # ''Invalid sorting key: bogus. Defaulting to creation date.'')])"
  using sort_invalid_key_fallback
    [of "\<lparr>tasks = [\<lparr>name = ''B'', priority = ''High'', completed = False,
                    created_date = ''2024-01-02 10:00:00''\<rparr>,
                   \<lparr>name = ''A'', priority = ''Low'', completed = False,
                    created_date = ''2024-01-01 10:00:00''\<rparr>]\<rparr>"
        fields_only "''bogus''" True]
  by (simp add: attrgetter_def fields_only_def)

text \<open>
  C6, as the specification states it, fails on the empty collection: the key \<^verbatim>\<open>bogus\<close>
  names no attribute of a task, and \<^verbatim>\<open>sort_tasks\<close> prints that the tasks were sorted by
  it, not that the key is invalid.
\<close>

theorem sort_invalid_key_empty_counterexample:
  "sort_tasks fields_only ''bogus'' True \<lparr>tasks = []\<rparr> =
     Inr (\<lparr>tasks = []\<rparr>, [Print (CHR 0x0A # ''Tasks sorted by bogus (Reverse: True).'')])
   \<and> attrgetter fields_only ''bogus''
       \<lparr>name = ''A'', priority = ''Low'', completed = False,
        created_date = ''2024-01-01 10:00:00''\<rparr> =
       Inl AttributeError"
  by (simp add: sort_tasks_def list_sort_def attrgetter_def fields_only_def str_bool_def)

text \<open>
  C7. When the file exists, is not empty, and its text is not valid JSON or the body of
  the \<^verbatim>\<open>try\<close> raises in any other way, a manager that starts up has an empty collection
  and has printed the message of a failed load. The exception does not leave
  \<^verbatim>\<open>load_tasks\<close>: the result is a manager. For a readable file that is not valid JSON
  the exception printed is \<^verbatim>\<open>JSONDecodeError\<close>.
\<close>

theorem load_failure_nonfatal:
  assumes "content d = Some text" and "text \<noteq> []"
    and "json_load js text = None \<or> read_tasks js clock d text = Raised e"
  shows "\<exists>e'. read_tasks js clock d text = Raised e'
           \<and> TaskManager_init js clock d =
               Some (\<lparr>tasks = []\<rparr>,
                     [Print_exn ''Error loading tasks: '' e' ''. Starting with empty list.''])
           \<and> (readable d \<and> json_load js text = None \<longrightarrow> e' = JSONDecodeError)"
proof -
  have "\<exists>e'. read_tasks js clock d text = Raised e'
          \<and> (readable d \<and> json_load js text = None \<longrightarrow> e' = JSONDecodeError)"
  proof (cases "json_load js text")
    case None
    then have "read_tasks js clock d text =
                 Raised (if readable d then JSONDecodeError else OSError)"
      by (simp add: read_tasks_def)
    then show ?thesis
      by simp
  next
    case (Some data)
    with assms(3) have "read_tasks js clock d text = Raised e"
      by simp
    with Some show ?thesis
      by simp
  qed
  then obtain e' where r: "read_tasks js clock d text = Raised e'"
    and j: "readable d \<and> json_load js text = None \<longrightarrow> e' = JSONDecodeError"
    by blast
  have "TaskManager_init js clock d =
          Some (\<lparr>tasks = []\<rparr>,
                [Print_exn ''Error loading tasks: '' e' ''. Starting with empty list.''])"
    unfolding TaskManager_init_def by (rule load_tasks_failure [OF assms(1,2) r])
  then show ?thesis
    using r j by blast
qed

theorem load_failure_nonfatal_witness:
  "TaskManager_init \<lparr>json_load = Map.empty, json_dump = (\<lambda>v. ''[]'')\<rparr>
     (\<lambda>i. \<lparr>year = 2024, month = 3, day = 9, hour = 7, minute = 5, second = 0\<rparr>)
     \<lparr>content = Some ''{oops'', readable = True, writable = True\<rparr> =
   Some (\<lparr>tasks = []\<rparr>,
         [Print_exn ''Error loading tasks: '' JSONDecodeError ''. Starting with empty list.''])"
  using load_failure_nonfatal
    [of "\<lparr>content = Some ''{oops'', readable = True, writable = True\<rparr>" "''{oops''"
        "\<lparr>json_load = Map.empty, json_dump = (\<lambda>v. ''[]'')\<rparr>"
        "\<lambda>i. \<lparr>year = 2024, month = 3, day = 9, hour = 7, minute = 5, second = 0\<rparr>"]
  by auto

text \<open>
  C8. On an empty store, \<^verbatim>\<open>add_task("Buy milk", "High")\<close> leaves exactly one task, not
  completed and created at the time of the call, and \<^verbatim>\<open>display_tasks()\<close> then prints the
  header, one numbered line and the footer. The line is the number 1, the marker
  \<^verbatim>\<open>[ ]\<close>, the label \<^verbatim>\<open>(P: High  )\<close> with the priority padded to six characters, the
  name, and the first ten characters of the creation date.
\<close>

theorem add_then_display:
  "fst (add_task now ''Buy milk'' ''High'' \<lparr>tasks = []\<rparr>) =
     \<lparr>tasks = [\<lparr>name = ''Buy milk'', priority = ''High'', completed = False,
                created_date = strftime now\<rparr>]\<rparr>
   \<and> snd (display_tasks None (fst (add_task now ''Buy milk'' ''High'' \<lparr>tasks = []\<rparr>))) =
       [Print (CHR 0x0A # ''--- Current To-Do List ---''),
        Print (''1. '' @ ''[ ]'' @ '' '' @ ''(P: High  )'' @ '' '' @ ''Buy milk'' @
               '' (Created: '' @ take 10 (strftime now) @ '')''),
        Print ''--------------------------'']"
  by (simp add: add_task_def display_tasks_def Task_str_def ljust_High str_nat_1 Let_def)

theorem add_then_display_witness:
  "snd (display_tasks None
     (fst (add_task \<lparr>year = 2024, month = 3, day = 9, hour = 7, minute = 5, second = 0\<rparr>
             ''Buy milk'' ''High'' \<lparr>tasks = []\<rparr>))) =
   [Print (CHR 0x0A # ''--- Current To-Do List ---''),
    Print ''1. [ ] (P: High  ) Buy milk (Created: 2024-03-09)'',
    Print ''--------------------------'']"
proof -
  have "strftime \<lparr>year = 2024, month = 3, day = 9, hour = 7, minute = 5, second = 0\<rparr> =
          ''2024-03-09 07:05:00''"
    by code_simp
  then show ?thesis
    using add_then_display
      [of "\<lparr>year = 2024, month = 3, day = 9, hour = 7, minute = 5, second = 0\<rparr>",
       THEN conjunct2]
    by simp
qed

text \<open>
  C9. Whatever the key and the flag, a call of \<^verbatim>\<open>sort_tasks\<close> that returns leaves a
  permutation of the collection: the same tasks, each as often as before, with every field
  as before. The call returns for each of the four attributes of a task and for every key
  that names no attribute. The only exception that can leave \<^verbatim>\<open>sort_tasks\<close> is the
  \<^verbatim>\<open>TypeError\<close> of comparing what another attribute of the runtime holds, on a collection
  of two tasks or more.
\<close>

theorem sort_tasks_permutation:
  "(\<forall>m' out. sort_tasks rt key reverse m = Inr (m', out) \<longrightarrow>
       mset (tasks m') = mset (tasks m))
   \<and> (key \<in> {''name'', ''priority'', ''completed'', ''created_date''} \<or> (\<forall>t. rt key t = None)
        \<longrightarrow> (\<exists>m' out. sort_tasks rt key reverse m = Inr (m', out)))
   \<and> (\<forall>e. sort_tasks rt key reverse m = Inl e \<longrightarrow> e = TypeError \<and> 2 \<le> length (tasks m))"
proof -
  have perm: "\<forall>m' out. sort_tasks rt key reverse m = Inr (m', out) \<longrightarrow>
                mset (tasks m') = mset (tasks m)"
    using sort_tasks_mset by blast
  have returns: "\<exists>m' out. sort_tasks rt key reverse m = Inr (m', out)"
    if k: "key \<in> {''name'', ''priority'', ''completed'', ''created_date''}
             \<or> (\<forall>t. rt key t = None)"
  proof (cases "key \<in> {''name'', ''priority'', ''completed'', ''created_date''}")
    case True
    then obtain ys where "list_sort (attrgetter rt key) reverse (tasks m) = Inr ys"
      using list_sort_returns_field by blast
    then show ?thesis
      by (simp add: sort_tasks_cases)
  next
    case False
    with k have "\<And>t. attrgetter rt key t = Inl AttributeError"
      by (simp add: attrgetter_def)
    then have "list_sort (attrgetter rt key) reverse (tasks m) =
                 (if tasks m = [] then Inr [] else Inl AttributeError)"
      by (rule list_sort_no_attr)
    then show ?thesis
      by (simp add: sort_tasks_cases)
  qed
  have raises: "e = TypeError \<and> 2 \<le> length (tasks m)"
    if a: "sort_tasks rt key reverse m = Inl e" for e
  proof -
    from a have l: "list_sort (attrgetter rt key) reverse (tasks m) = Inl e"
      and ne: "e \<noteq> AttributeError"
      by (auto simp: sort_tasks_cases split: sum.splits if_splits)
    then have "e = TypeError"
      using list_sort_attrgetter_error by blast
    moreover have "2 \<le> length (tasks m)"
    proof (rule ccontr)
      assume "\<not> 2 \<le> length (tasks m)"
      then have "length (tasks m) < 2"
        by simp
      then have "keys_of (attrgetter rt key) (tasks m) = Inl e"
        using l by (rule list_sort_short)
      then show False
        using ne keys_of_error attrgetter_error by blast
    qed
    ultimately show ?thesis
      by simp
  qed
  show ?thesis
    using perm returns raises by blast
qed

theorem sort_tasks_permutation_witness:
  "sort_tasks fields_only ''name'' True
     \<lparr>tasks = [\<lparr>name = ''A'', priority = ''Low'', completed = False,
                created_date = ''2024-01-01 10:00:00''\<rparr>,
               \<lparr>name = ''B'', priority = ''High'', completed = False,
                created_date = ''2024-01-02 10:00:00''\<rparr>]\<rparr> =
     Inr (\<lparr>tasks = [\<lparr>name = ''B'', priority = ''High'', completed = False,
                      created_date = ''2024-01-02 10:00:00''\<rparr>,
                     \<lparr>name = ''A'', priority = ''Low'', completed = False,
                      created_date = ''2024-01-01 10:00:00''\<rparr>]\<rparr>,
          [Print (CHR 0x0A # ''Tasks sorted by name (Reverse: True).'')])
   \<and> mset [\<lparr>name = ''B'', priority = ''High'', completed = False,
             created_date = ''2024-01-02 10:00:00''\<rparr>,
            \<lparr>name = ''A'', priority = ''Low'', completed = False,
             created_date = ''2024-01-01 10:00:00''\<rparr>] =
     mset [\<lparr>name = ''A'', priority = ''Low'', completed = False,
            created_date = ''2024-01-01 10:00:00''\<rparr>,
           \<lparr>name = ''B'', priority = ''High'', completed = False,
            created_date = ''2024-01-02 10:00:00''\<rparr>]"
proof -
  let ?m = "\<lparr>tasks = [\<lparr>name = ''A'', priority = ''Low'', completed = False,
                        created_date = ''2024-01-01 10:00:00''\<rparr>,
                       \<lparr>name = ''B'', priority = ''High'', completed = False,
                        created_date = ''2024-01-02 10:00:00''\<rparr>]\<rparr>"
  have s: "sort_tasks fields_only ''name'' True ?m =
     Inr (\<lparr>tasks = [\<lparr>name = ''B'', priority = ''High'', completed = False,
                      created_date = ''2024-01-02 10:00:00''\<rparr>,
                     \<lparr>name = ''A'', priority = ''Low'', completed = False,
                      created_date = ''2024-01-01 10:00:00''\<rparr>]\<rparr>,
          [Print (CHR 0x0A # ''Tasks sorted by name (Reverse: True).'')])"
    by (simp add: sort_tasks_def list_sort_def attrgetter_def stable_sort_def str_bool_def)
  show ?thesis
    using s sort_tasks_permutation [of fields_only "''name''" True ?m]
    by simp
qed

text \<open>
  C10. A \<^verbatim>\<open>created_date\<close> that tests false (\<^verbatim>\<open>None\<close>, the empty string, zero, an empty
  list or \<^verbatim>\<open>dict\<close>) is dropped by the constructor, which behaves as if it had been given
  the current time. So every task the constructor builds, and every task \<^verbatim>\<open>add_task\<close>
  appends, has a \<open>created_date\<close> that is not empty; and a file that holds one record
  with the empty string as its \<open>created_date\<close> loads as a task with the time of the
  load instead, which is not the task that was written.
\<close>

theorem created_date_default:
  "(\<not> truthy d \<longrightarrow>
      Task_init now n' p' c' d = Task_init now n' p' c' (PStr (strftime now))
      \<and> Task_init now (PStr n) (PStr p) (PBool c) d =
          Some \<lparr>name = n, priority = p, completed = c, created_date = strftime now\<rparr>)
   \<and> (\<forall>t. Task_init now n' p' c' d' = Some t \<longrightarrow> created_date t \<noteq> [])
   \<and> created_date (last (tasks (fst (add_task now nm pr m)))) \<noteq> []
   \<and> (content dk = Some text \<and> text \<noteq> [] \<and> readable dk
        \<and> json_load js text = Some (PList [to_dict (t0\<lparr>created_date := []\<rparr>)]) \<longrightarrow>
       TaskManager_init js clock dk =
         Some (\<lparr>tasks = [t0\<lparr>created_date := strftime (clock 0)\<rparr>]\<rparr>,
               [Print ''Loaded 1 tasks.''])
       \<and> t0\<lparr>created_date := strftime (clock 0)\<rparr> \<noteq> t0\<lparr>created_date := []\<rparr>)"
proof -
  have a: "\<not> truthy d \<longrightarrow>
      Task_init now n' p' c' d = Task_init now n' p' c' (PStr (strftime now))
      \<and> Task_init now (PStr n) (PStr p) (PBool c) d =
          Some \<lparr>name = n, priority = p, completed = c, created_date = strftime now\<rparr>"
    using Task_init_falsy by (simp add: Task_init_typed)
  have b: "\<forall>t. Task_init now n' p' c' d' = Some t \<longrightarrow> created_date t \<noteq> []"
    using Task_init_nonempty by blast
  have c: "created_date (last (tasks (fst (add_task now nm pr m)))) \<noteq> []"
    by (simp add: add_task_def strftime_nonempty)
  have ne: "t0\<lparr>created_date := strftime (clock 0)\<rparr> \<noteq> t0\<lparr>created_date := []\<rparr>"
  proof
    assume "t0\<lparr>created_date := strftime (clock 0)\<rparr> = t0\<lparr>created_date := []\<rparr>"
    then have "created_date (t0\<lparr>created_date := strftime (clock 0)\<rparr>) =
                 created_date (t0\<lparr>created_date := []\<rparr>)"
      by (rule arg_cong)
    then show False
      by (simp add: strftime_nonempty)
  qed
  have l: "TaskManager_init js clock dk =
         Some (\<lparr>tasks = [t0\<lparr>created_date := strftime (clock 0)\<rparr>]\<rparr>,
               [Print ''Loaded 1 tasks.''])"
    if "content dk = Some text" "text \<noteq> []" "readable dk"
       "json_load js text = Some (PList [to_dict (t0\<lparr>created_date := []\<rparr>)])"
    using that
    by (simp add: TaskManager_init_def load_tasks_def read_tasks_def Task_kwargs_empty_date
          str_nat_1)
  show ?thesis
    using a b c l ne by blast
qed

theorem created_date_default_witness:
  "Task_init \<lparr>year = 2024, month = 3, day = 9, hour = 7, minute = 5, second = 0\<rparr>
     (PStr ''A'') (PStr ''Low'') (PBool False) (PStr []) =
     Some \<lparr>name = ''A'', priority = ''Low'', completed = False,
           created_date = strftime \<lparr>year = 2024, month = 3, day = 9, hour = 7, minute = 5,
                                    second = 0\<rparr>\<rparr>
   \<and> TaskManager_init
       \<lparr>json_load = [''[A]'' \<mapsto> PList [to_dict \<lparr>name = ''A'', priority = ''Low'',
                        completed = False, created_date = []\<rparr>]],
        json_dump = (\<lambda>v. ''[A]'')\<rparr>
       (\<lambda>i. \<lparr>year = 2024, month = 3, day = 9, hour = 7, minute = 5, second = 0\<rparr>)
       \<lparr>content = Some ''[A]'', readable = True, writable = True\<rparr> =
     Some (\<lparr>tasks = [\<lparr>name = ''A'', priority = ''Low'', completed = False,
                       created_date = strftime \<lparr>year = 2024, month = 3, day = 9, hour = 7,
                                                minute = 5, second = 0\<rparr>\<rparr>]\<rparr>,
           [Print ''Loaded 1 tasks.''])"
  using created_date_default
    [of "PStr []" "\<lparr>year = 2024, month = 3, day = 9, hour = 7, minute = 5, second = 0\<rparr>"
        "PStr ''A''" "PStr ''Low''" "PBool False" "''A''" "''Low''" False "PStr []"
        "''A''" "''Low''" "\<lparr>tasks = []\<rparr>"
        "\<lparr>content = Some ''[A]'', readable = True, writable = True\<rparr>" "''[A]''"
        "\<lparr>json_load = [''[A]'' \<mapsto> PList [to_dict \<lparr>name = ''A'', priority = ''Low'',
                         completed = False, created_date = []\<rparr>]],
          json_dump = (\<lambda>v. ''[A]'')\<rparr>"
        "\<lparr>name = ''A'', priority = ''Low'', completed = False, created_date = []\<rparr>"
        "\<lambda>i. \<lparr>year = 2024, month = 3, day = 9, hour = 7, minute = 5, second = 0\<rparr>"]
  by (simp add: Task_init_typed strftime_nonempty)

end
